theory Spec2Isabelle
  imports Main "HOL-Library.Word"
begin

section \<open>Python values used by \<open>app.py\<close>\<close>

text \<open>
  A Python \<open>str\<close> is a sequence of Unicode code points, so it is a list of naturals; the
  ASCII part of a literal is written as an Isabelle string and embedded by \<open>str\<close>, the
  letter e-acute of the French keywords is the code point 233 (\<open>CHR 0xE9\<close>).
  \<open>bytes\<close> is a list of octets.
\<close>

type_synonym pystr = "nat list"

type_synonym bytes = "8 word list"

definition str :: "string \<Rightarrow> pystr" where
  "str s = map of_char s"

text \<open>Python's \<open>mot in s\<close> on two strings: \<open>mot\<close> occurs in \<open>s\<close> as a contiguous run.\<close>

fun starts_with :: "pystr \<Rightarrow> pystr \<Rightarrow> bool" where
  "starts_with s [] = True"
| "starts_with [] (c # mot) = False"
| "starts_with (d # s) (c # mot) = (c = d \<and> starts_with s mot)"

fun str_in :: "pystr \<Rightarrow> pystr \<Rightarrow> bool" where
  "str_in mot [] = (mot = [])"
| "str_in mot (c # s) = (starts_with (c # s) mot \<or> str_in mot s)"

text \<open>
  The exceptions that the modelled code can meet. \<open>KeyError\<close> and \<open>AttributeError\<close> come
  from subscripting a \<open>dict\<close> and calling \<open>.add\<close>; the others are raised by the libraries
  (\<open>spacy.load\<close>, \<open>fitz.open\<close>, \<open>Document.extract_image\<close>, \<open>Image.open\<close>).
\<close>

datatype error =
    KeyError pystr
  | AttributeError
  | OSError
  | FileDataError
  | ValueError
  | IndexError
  | UnidentifiedImageError

text \<open>
  The values stored in the dictionaries that \<open>identify_artwork_info\<close> returns: a string
  (the message of the degraded result) or a \<open>set\<close> of strings. A \<open>dict\<close> with string keys
  is an association list in insertion order.
\<close>

datatype pyval = PyStr pystr | PySet "pystr set"

type_synonym pydict = "(pystr \<times> pyval) list"

text \<open>\<open>d[key].add(x)\<close>: \<open>KeyError\<close> when the key is absent, \<open>AttributeError\<close> when the
  value is a string (\<open>str\<close> has no \<open>add\<close>); otherwise the set under \<open>key\<close> gains \<open>x\<close>.\<close>

fun set_add :: "pystr \<Rightarrow> pystr \<Rightarrow> pydict \<Rightarrow> error + pydict" where
  "set_add key x [] = Inl (KeyError key)"
| "set_add key x ((k, v) # d) =
     (if k = key then
        (case v of
           PySet s \<Rightarrow> Inr ((k, PySet (insert x s)) # d)
         | PyStr _ \<Rightarrow> Inl AttributeError)
      else
        (case set_add key x d of
           Inl e \<Rightarrow> Inl e
         | Inr d' \<Rightarrow> Inr ((k, v) # d')))"

section \<open>The libraries, as far as \<open>app.py\<close> uses them\<close>

text \<open>
  spaCy: a \<open>Span\<close> has a \<open>label_\<close> and a \<open>text\<close>; a \<open>Doc\<close> has its entity spans \<open>ents\<close>
  and its sentence spans \<open>sents\<close>, both in document order. A loaded pipeline is a
  function from the text to its \<open>Doc\<close>.
\<close>

record span =
  span_label :: pystr
  span_text :: pystr

record doc =
  ents :: "span list"
  sents :: "span list"

type_synonym language = "pystr \<Rightarrow> doc"

text \<open>
  PyMuPDF: a page gives its plain text (\<open>get_text()\<close>) and the list of the images it
  shows (\<open>get_images(full=True)\<close>), one tuple per image whose item 0 is the image's
  cross-reference number; the rest of the tuple (mask, width, height, ...) is the second
  component. A document is its pages in order and \<open>extract_image(xref)\<close>, which returns
  a dictionary (here from the key to the bytes it holds) or raises.
\<close>

record page =
  get_text :: pystr
  get_images :: "(nat \<times> pystr) list"

type_synonym base_image = "(string \<times> bytes) list"

record document =
  pages :: "page list"
  extract_image :: "nat \<Rightarrow> error + base_image"

section \<open>\<open>class ArtworkPDFExtractor\<close>\<close>

record extractor =
  document :: document
  nlp :: "language option"

text \<open>
  \<open>__init__\<close>: the document is opened from the bytes of the file (a failure of
  \<open>fitz.open\<close> is not caught), then the French pipeline is loaded; only an \<open>OSError\<close> of
  \<open>spacy.load\<close> is caught, and then \<open>nlp\<close> is \<open>None\<close> and one warning is shown. The
  result is the new object together with the warnings shown.
\<close>

definition modele_non_trouve :: pystr where
  "modele_non_trouve =
     str (''Mod'' @ [CHR 0xE8] @ ''le spaCy non trouv'' @ [CHR 0xE9]
          @ ''. Certaines fonctionnalit'' @ [CHR 0xE9] @ ''s seront limit''
          @ [CHR 0xE9] @ ''es.'')"

definition init ::
  "(bytes \<Rightarrow> error + document) \<Rightarrow> (pystr \<Rightarrow> error + language) \<Rightarrow> bytes
     \<Rightarrow> error + extractor \<times> pystr list" where
  "init fitz_open spacy_load pdf_file =
     (case fitz_open pdf_file of
        Inl e \<Rightarrow> Inl e
      | Inr d \<Rightarrow>
          (case spacy_load (str ''fr_core_news_md'') of
             Inr model \<Rightarrow> Inr (\<lparr>document = d, nlp = Some model\<rparr>, [])
           | Inl OSError \<Rightarrow> Inr (\<lparr>document = d, nlp = None\<rparr>, [modele_non_trouve])
           | Inl e \<Rightarrow> Inl e))"

subsection \<open>\<open>extract_images\<close>\<close>

text \<open>
  The inner loop over \<open>page.get_images(full=True)\<close>: the image bytes are looked up under
  the key \<open>'image'\<close> of what \<open>extract_image\<close> returns and opened with \<open>Image.open\<close>
  (the parameter \<open>image_open\<close>, with the image type of the library left open); the opened
  image is appended to \<open>images\<close>. Any exception leaves the method.
\<close>

fun images_of_page ::
  "(bytes \<Rightarrow> error + 'img) \<Rightarrow> document \<Rightarrow> (nat \<times> pystr) list \<Rightarrow> 'img list
     \<Rightarrow> error + 'img list" where
  "images_of_page image_open d [] images = Inr images"
| "images_of_page image_open d (img # rest) images =
     (let xref = fst img in
      case extract_image d xref of
        Inl e \<Rightarrow> Inl e
      | Inr base_image \<Rightarrow>
          (case map_of base_image ''image'' of
             None \<Rightarrow> Inl (KeyError (str ''image''))
           | Some image_bytes \<Rightarrow>
               (case image_open image_bytes of
                  Inl e \<Rightarrow> Inl e
                | Inr pil_image \<Rightarrow>
                    images_of_page image_open d rest (images @ [pil_image]))))"

text \<open>
  The outer loop over \<open>range(len(self.document))\<close>. \<open>self.document[page_num]\<close> raises
  \<open>IndexError\<close> when \<open>page_num\<close> is out of range; the branch is kept, and the indices of
  \<open>range(len(self.document))\<close> never reach it.
\<close>

fun images_of_pages ::
  "(bytes \<Rightarrow> error + 'img) \<Rightarrow> document \<Rightarrow> nat list \<Rightarrow> 'img list
     \<Rightarrow> error + 'img list" where
  "images_of_pages image_open d [] images = Inr images"
| "images_of_pages image_open d (page_num # rest) images =
     (if page_num < length (pages d) then
        (case images_of_page image_open d (get_images (pages d ! page_num)) images of
           Inl e \<Rightarrow> Inl e
         | Inr images' \<Rightarrow> images_of_pages image_open d rest images')
      else Inl IndexError)"

definition extract_images ::
  "(bytes \<Rightarrow> error + 'img) \<Rightarrow> extractor \<Rightarrow> error + 'img list" where
  "extract_images image_open self =
     images_of_pages image_open (document self)
       [0 ..< length (pages (document self))] []"

subsection \<open>\<open>extract_text\<close>\<close>

text \<open>\<open>full_text\<close> starts empty and each page's text is appended to it, in page order.\<close>

definition extract_text :: "extractor \<Rightarrow> pystr" where
  "extract_text self =
     foldl (\<lambda>full_text page. full_text @ get_text page) [] (pages (document self))"

subsection \<open>\<open>identify_artwork_info\<close>\<close>

definition modele_non_disponible :: pydict where
  "modele_non_disponible =
     [(str ''erreur'', PyStr (str (''Mod'' @ [CHR 0xE8] @ ''le NLP non disponible'')))]"

definition artwork_info_init :: pydict where
  "artwork_info_init =
     [(str ''artistes'', PySet {}),
      (str ''titres'', PySet {}),
      (str ''dates'', PySet {}),
      (str ''techniques'', PySet {}),
      (str ''dimensions'', PySet {})]"

text \<open>The two keyword lists of the sentence loop.\<close>

definition mots_dates :: "pystr list" where
  "mots_dates =
     [str ''date'', str (''ann'' @ [CHR 0xE9] @ ''e''),
      str (''cr'' @ [CHR 0xE9, CHR 0xE9] @ '' en'')]"

definition mots_techniques :: "pystr list" where
  "mots_techniques =
     [str ''technique'', str ''huile'', str ''aquarelle'', str ''acrylique'']"

text \<open>The loop over \<open>doc.ents\<close>, with its \<open>if\<close> / \<open>elif\<close>.\<close>

fun ents_loop :: "span list \<Rightarrow> pydict \<Rightarrow> error + pydict" where
  "ents_loop [] artwork_info = Inr artwork_info"
| "ents_loop (ent # rest) artwork_info =
     (if span_label ent = str ''PER'' then
        (case set_add (str ''artistes'') (span_text ent) artwork_info of
           Inl e \<Rightarrow> Inl e
         | Inr info \<Rightarrow> ents_loop rest info)
      else if span_label ent = str ''WORK_OF_ART'' then
        (case set_add (str ''titres'') (span_text ent) artwork_info of
           Inl e \<Rightarrow> Inl e
         | Inr info \<Rightarrow> ents_loop rest info)
      else ents_loop rest artwork_info)"

text \<open>
  \<open>any(mot in sent.text.lower() for mot in mots)\<close>. Python's \<open>str.lower\<close> follows the
  Unicode case mapping; it is the parameter \<open>lower\<close>.
\<close>

definition any_mot_in :: "(pystr \<Rightarrow> pystr) \<Rightarrow> pystr list \<Rightarrow> span \<Rightarrow> bool" where
  "any_mot_in lower mots sent = list_ex (\<lambda>mot. str_in mot (lower (span_text sent))) mots"

text \<open>The loop over \<open>doc.sents\<close>, with its two \<open>if\<close> statements one after the other.\<close>

fun sents_loop :: "(pystr \<Rightarrow> pystr) \<Rightarrow> span list \<Rightarrow> pydict \<Rightarrow> error + pydict" where
  "sents_loop lower [] artwork_info = Inr artwork_info"
| "sents_loop lower (sent # rest) artwork_info =
     (case (if any_mot_in lower mots_dates sent
            then set_add (str ''dates'') (span_text sent) artwork_info
            else Inr artwork_info) of
        Inl e \<Rightarrow> Inl e
      | Inr info \<Rightarrow>
          (case (if any_mot_in lower mots_techniques sent
                 then set_add (str ''techniques'') (span_text sent) info
                 else Inr info) of
             Inl e \<Rightarrow> Inl e
           | Inr info' \<Rightarrow> sents_loop lower rest info'))"

text \<open>
  The method reads \<open>self.nlp\<close> and assigns to no attribute of \<open>self\<close>; it returns its
  result together with the object as it leaves it.
\<close>

definition identify_artwork_info ::
  "(pystr \<Rightarrow> pystr) \<Rightarrow> extractor \<Rightarrow> pystr \<Rightarrow> (error + pydict) \<times> extractor" where
  "identify_artwork_info lower self text_in =
     (case nlp self of
        None \<Rightarrow> (Inr modele_non_disponible, self)
      | Some model \<Rightarrow>
          (let d = model text_in in
           (case ents_loop (ents d) artwork_info_init of
              Inl e \<Rightarrow> Inl e
            | Inr info \<Rightarrow> sents_loop lower (sents d) info,
            self)))"

section \<open>Notions used to state the properties\<close>

text \<open>
  What the body of the inner loop of \<open>extract_images\<close> makes of one listed image: the
  bytes stored under \<open>'image'\<close> for its cross-reference number, opened as a bitmap, or
  the exception met on the way.
\<close>

definition bitmap_of ::
  "(bytes \<Rightarrow> error + 'img) \<Rightarrow> document \<Rightarrow> nat \<times> pystr \<Rightarrow> error + 'img" where
  "bitmap_of image_open d img =
     (case extract_image d (fst img) of
        Inl e \<Rightarrow> Inl e
      | Inr base_image \<Rightarrow>
          (case map_of base_image ''image'' of
             None \<Rightarrow> Inl (KeyError (str ''image''))
           | Some image_bytes \<Rightarrow> image_open image_bytes))"

text \<open>The images listed by the document: page by page, and within a page in the order
  of \<open>get_images\<close>.\<close>

definition listed_images :: "document \<Rightarrow> (nat \<times> pystr) list" where
  "listed_images d = concat (map get_images (pages d))"

text \<open>The dictionary with the five categories, given the five sets.\<close>

definition artwork_info_of ::
  "pystr set \<Rightarrow> pystr set \<Rightarrow> pystr set \<Rightarrow> pystr set \<Rightarrow> pystr set \<Rightarrow> pydict" where
  "artwork_info_of artistes titres dates techniques dimensions =
     [(str ''artistes'', PySet artistes),
      (str ''titres'', PySet titres),
      (str ''dates'', PySet dates),
      (str ''techniques'', PySet techniques),
      (str ''dimensions'', PySet dimensions)]"

text \<open>
  What spaCy guarantees of the spans of a \<open>Doc\<close> made from a text: every entity span and
  every sentence span covers at least one token, so its text is a non-empty piece of the
  text the \<open>Doc\<close> was made from.
\<close>

definition spans_of_text :: "doc \<Rightarrow> pystr \<Rightarrow> bool" where
  "spans_of_text d text_in =
     list_all (\<lambda>sp. span_text sp \<noteq> [] \<and> str_in (span_text sp) text_in) (ents d @ sents d)"

text \<open>The object after classifying each text of a list in turn.\<close>

fun classify_all :: "(pystr \<Rightarrow> pystr) \<Rightarrow> extractor \<Rightarrow> pystr list \<Rightarrow> extractor" where
  "classify_all lower self [] = self"
| "classify_all lower self (text_in # texts) =
     classify_all lower (snd (identify_artwork_info lower self text_in)) texts"

section \<open>Concrete inputs\<close>

text \<open>\<open>str.lower\<close> on text whose capitals are the ASCII capitals only.\<close>

definition lower_ascii :: "pystr \<Rightarrow> pystr" where
  "lower_ascii s = map (\<lambda>c. if 65 \<le> c \<and> c \<le> 90 then c + 32 else c) s"

text \<open>
  A small pipeline: a non-empty text is one sentence, and the name Jean Dupont, where it
  occurs, is one entity with the given label.
\<close>

definition exemple_modele :: "pystr \<Rightarrow> language" where
  "exemple_modele label text_in =
     (if text_in = [] then \<lparr>ents = [], sents = []\<rparr>
      else
        \<lparr>ents =
           (if str_in (str ''Jean Dupont'') text_in
            then [\<lparr>span_label = label, span_text = str ''Jean Dupont''\<rparr>] else []),
         sents = [\<lparr>span_label = [], span_text = text_in\<rparr>]\<rparr>)"

text \<open>
  A document of two pages that show three images, two of them the same object 7; with
  \<open>corrupt\<close> the stream of object 9 is not an image format. The bitmaps of the example
  are the bytes of a stream that starts with the JPEG marker.
\<close>

definition exemple_document :: "bool \<Rightarrow> document" where
  "exemple_document corrupt =
     \<lparr>pages =
        [\<lparr>get_text = str ''Huile '', get_images = [(7, str ''Im0'')]\<rparr>,
         \<lparr>get_text = str ''sur toile.'', get_images = [(9, str ''Im1''), (7, str ''Im0'')]\<rparr>],
      extract_image =
        (\<lambda>xref.
           if xref = 7 then Inr [(''ext'', [106, 112]), (''image'', [255, 216, 1])]
           else if xref = 9 then
             Inr [(''ext'', [106, 112]), (''image'', if corrupt then [0, 0] else [255, 216, 2])]
           else Inl ValueError)\<rparr>"

definition exemple_image_open :: "bytes \<Rightarrow> error + bytes" where
  "exemple_image_open b =
     (if take 2 b = [255, 216] then Inr b else Inl UnidentifiedImageError)"

definition exemple :: "pystr \<Rightarrow> extractor" where
  "exemple label =
     \<lparr>document = exemple_document False, nlp = Some (exemple_modele label)\<rparr>"

section \<open>Substring test\<close>

lemma starts_with_iff: "starts_with s mot \<longleftrightarrow> (\<exists>ss. s = mot @ ss)"
  by (induction s mot rule: starts_with.induct) auto

text \<open>\<open>str_in\<close> is the substring relation.\<close>

lemma str_in_iff: "str_in mot s \<longleftrightarrow> (\<exists>ps ss. s = ps @ mot @ ss)"
proof (induction s)
  case Nil
  show ?case by auto
next
  case (Cons c s)
  show ?case
  proof
    assume "str_in mot (c # s)"
    then consider "starts_with (c # s) mot" | "str_in mot s" by auto
    then show "\<exists>ps ss. c # s = ps @ mot @ ss"
    proof cases
      case 1
      then obtain ss where "c # s = mot @ ss" by (auto simp: starts_with_iff)
      then have "c # s = [] @ mot @ ss" by simp
      then show ?thesis by blast
    next
      case 2
      with Cons obtain ps ss where "s = ps @ mot @ ss" by blast
      then have "c # s = (c # ps) @ mot @ ss" by simp
      then show ?thesis by blast
    qed
  next
    assume "\<exists>ps ss. c # s = ps @ mot @ ss"
    then obtain ps ss where eq: "c # s = ps @ mot @ ss" by blast
    show "str_in mot (c # s)"
    proof (cases ps)
      case Nil
      with eq have "starts_with (c # s) mot" by (auto simp: starts_with_iff)
      then show ?thesis by simp
    next
      case (Cons p ps')
      with eq have "s = ps' @ mot @ ss" by simp
      with Cons.IH have "str_in mot s" by blast
      then show ?thesis by simp
    qed
  qed
qed

section \<open>The two loops of the classifier\<close>

text \<open>Adding to one category of the five-category dictionary changes that set only.\<close>

lemma set_add_artistes:
  "set_add (str ''artistes'') x (artwork_info_of A T D Te Di) =
     Inr (artwork_info_of (insert x A) T D Te Di)"
  by (simp add: artwork_info_of_def str_def)

lemma set_add_titres:
  "set_add (str ''titres'') x (artwork_info_of A T D Te Di) =
     Inr (artwork_info_of A (insert x T) D Te Di)"
  by (simp add: artwork_info_of_def str_def)

lemma set_add_dates:
  "set_add (str ''dates'') x (artwork_info_of A T D Te Di) =
     Inr (artwork_info_of A T (insert x D) Te Di)"
  by (simp add: artwork_info_of_def str_def)

lemma set_add_techniques:
  "set_add (str ''techniques'') x (artwork_info_of A T D Te Di) =
     Inr (artwork_info_of A T D (insert x Te) Di)"
  by (simp add: artwork_info_of_def str_def)

lemma labels_differ: "str ''PER'' \<noteq> str ''WORK_OF_ART''"
  by (simp add: str_def)

lemma ents_loop_info:
  "ents_loop es (artwork_info_of A T D Te Di) =
     Inr (artwork_info_of
            (A \<union> set (map span_text (filter (\<lambda>e. span_label e = str ''PER'') es)))
            (T \<union> set (map span_text (filter (\<lambda>e. span_label e = str ''WORK_OF_ART'') es)))
            D Te Di)"
proof (induction es arbitrary: A T)
  case Nil
  show ?case by simp
next
  case (Cons e es)
  consider (per) "span_label e = str ''PER''"
    | (work) "span_label e \<noteq> str ''PER''" "span_label e = str ''WORK_OF_ART''"
    | (other) "span_label e \<noteq> str ''PER''" "span_label e \<noteq> str ''WORK_OF_ART''"
    by blast
  then show ?case
  proof cases
    case per
    then show ?thesis by (simp add: set_add_artistes Cons.IH labels_differ)
  next
    case work
    then show ?thesis by (simp add: set_add_titres Cons.IH)
  next
    case other
    then show ?thesis by (simp add: Cons.IH)
  qed
qed

lemma sents_loop_info:
  "sents_loop lower ss (artwork_info_of A T D Te Di) =
     Inr (artwork_info_of A T
            (D \<union> set (map span_text (filter (any_mot_in lower mots_dates) ss)))
            (Te \<union> set (map span_text (filter (any_mot_in lower mots_techniques) ss)))
            Di)"
proof (induction ss arbitrary: D Te)
  case Nil
  show ?case by simp
next
  case (Cons s ss)
  show ?case
    by (simp add: set_add_dates set_add_techniques Cons.IH)
qed

text \<open>The whole method when a pipeline is loaded: it never raises, and its five sets are
  these.\<close>

lemma identify_available:
  assumes "nlp self = Some model"
  shows "identify_artwork_info lower self text_in =
     (Inr (artwork_info_of
            (set (map span_text
               (filter (\<lambda>e. span_label e = str ''PER'') (ents (model text_in)))))
            (set (map span_text
               (filter (\<lambda>e. span_label e = str ''WORK_OF_ART'') (ents (model text_in)))))
            (set (map span_text
               (filter (any_mot_in lower mots_dates) (sents (model text_in)))))
            (set (map span_text
               (filter (any_mot_in lower mots_techniques) (sents (model text_in)))))
            {}), self)"
proof -
  have start: "artwork_info_init = artwork_info_of {} {} {} {} {}"
    by (simp add: artwork_info_init_def artwork_info_of_def)
  show ?thesis
    using assms
    by (simp add: identify_artwork_info_def start ents_loop_info sents_loop_info Let_def)
qed

lemma map_of_artwork_info_of:
  "map_of (artwork_info_of A T D Te Di) (str ''artistes'') = Some (PySet A)"
  "map_of (artwork_info_of A T D Te Di) (str ''titres'') = Some (PySet T)"
  "map_of (artwork_info_of A T D Te Di) (str ''dates'') = Some (PySet D)"
  "map_of (artwork_info_of A T D Te Di) (str ''techniques'') = Some (PySet Te)"
  "map_of (artwork_info_of A T D Te Di) (str ''dimensions'') = Some (PySet Di)"
  by (simp_all add: artwork_info_of_def str_def)

lemma any_mot_in_dates:
  "any_mot_in lower mots_dates sent \<longleftrightarrow>
     str_in (str ''date'') (lower (span_text sent))
     \<or> str_in (str (''ann'' @ [CHR 0xE9] @ ''e'')) (lower (span_text sent))
     \<or> str_in (str (''cr'' @ [CHR 0xE9, CHR 0xE9] @ '' en'')) (lower (span_text sent))"
  by (simp add: any_mot_in_def mots_dates_def)

lemma any_mot_in_techniques:
  "any_mot_in lower mots_techniques sent \<longleftrightarrow>
     str_in (str ''technique'') (lower (span_text sent))
     \<or> str_in (str ''huile'') (lower (span_text sent))
     \<or> str_in (str ''aquarelle'') (lower (span_text sent))
     \<or> str_in (str ''acrylique'') (lower (span_text sent))"
  by (simp add: any_mot_in_def mots_techniques_def)

lemmas ex_defs = exemple_def exemple_modele_def lower_ascii_def str_def
  identify_artwork_info_def artwork_info_init_def any_mot_in_def mots_dates_def
  mots_techniques_def

section \<open>The classifier: sentence pass\<close>

text \<open>
  Claim C1, as the code has it. With a pipeline loaded, the classifier never raises; the
  set under \<open>dates\<close> holds the text, in its original case, of exactly the sentences whose
  lower-cased text contains one of the French words for date, year and created in (the
  last two written with e-acute, code point 233), and the set under \<open>techniques\<close> that of exactly the
  sentences whose lower-cased text contains one of \<open>technique\<close>, \<open>huile\<close>, \<open>aquarelle\<close>,
  \<open>acrylique\<close>. In particular a sentence whose lower-cased text contains \<open>huile\<close> is
  in \<open>techniques\<close>; when no entity is labelled \<open>PER\<close> or \<open>WORK_OF_ART\<close> the sets under
  \<open>artistes\<close> and \<open>titres\<close> are empty; the set under \<open>dimensions\<close> is empty.
\<close>

theorem sentence_pass_keywords:
  assumes "nlp self = Some model"
  shows "\<exists>info.
      fst (identify_artwork_info lower self text_in) = Inr info
    \<and> map_of info (str ''dates'') =
        Some (PySet (set (map span_text (filter
          (\<lambda>sent. str_in (str ''date'') (lower (span_text sent))
               \<or> str_in (str (''ann'' @ [CHR 0xE9] @ ''e'')) (lower (span_text sent))
               \<or> str_in (str (''cr'' @ [CHR 0xE9, CHR 0xE9] @ '' en''))
                    (lower (span_text sent)))
          (sents (model text_in))))))
    \<and> map_of info (str ''techniques'') =
        Some (PySet (set (map span_text (filter
          (\<lambda>sent. str_in (str ''technique'') (lower (span_text sent))
               \<or> str_in (str ''huile'') (lower (span_text sent))
               \<or> str_in (str ''aquarelle'') (lower (span_text sent))
               \<or> str_in (str ''acrylique'') (lower (span_text sent)))
          (sents (model text_in))))))
    \<and> (\<forall>sent \<in> set (sents (model text_in)).
          str_in (str ''huile'') (lower (span_text sent)) \<longrightarrow>
          (\<exists>techniques. map_of info (str ''techniques'') = Some (PySet techniques)
             \<and> span_text sent \<in> techniques))
    \<and> ((\<forall>ent \<in> set (ents (model text_in)).
           span_label ent \<noteq> str ''PER'' \<and> span_label ent \<noteq> str ''WORK_OF_ART'') \<longrightarrow>
         map_of info (str ''artistes'') = Some (PySet {})
         \<and> map_of info (str ''titres'') = Some (PySet {}))
    \<and> map_of info (str ''dimensions'') = Some (PySet {})"
  unfolding identify_available [OF assms]
  by (auto simp add: map_of_artwork_info_of any_mot_in_dates any_mot_in_techniques
      filter_empty_conv)

text \<open>The sentence \<open>Huile sur toile.\<close>, with no entity, is filed under \<open>techniques\<close>.\<close>

theorem sentence_pass_keywords_witness:
  "nlp (exemple (str ''PER'')) = Some (exemple_modele (str ''PER''))
   \<and> fst (identify_artwork_info lower_ascii (exemple (str ''PER''))
        (str ''Huile sur toile.'')) =
       Inr [(str ''artistes'', PySet {}),
            (str ''titres'', PySet {}),
            (str ''dates'', PySet {}),
            (str ''techniques'', PySet {str ''Huile sur toile.''}),
            (str ''dimensions'', PySet {})]"
proof -
  have h: "nlp (exemple (str ''PER'')) = Some (exemple_modele (str ''PER''))"
    by (simp add: exemple_def)
  show ?thesis
    using sentence_pass_keywords [OF h, of lower_ascii "str ''Huile sur toile.''"]
    by (simp add: exemple_def exemple_modele_def lower_ascii_def str_def
        identify_artwork_info_def artwork_info_init_def any_mot_in_def mots_dates_def
        mots_techniques_def)
qed

text \<open>
  With the English keywords the claim fails: the one sentence \<open>Oil on canvas.\<close> contains
  \<open>oil\<close> once lower-cased, no entity is found, and the set under \<open>techniques\<close> is empty.
\<close>

theorem sentence_pass_english_counterexample:
  "sents (exemple_modele (str ''PER'') (str ''Oil on canvas.'')) =
     [\<lparr>span_label = [], span_text = str ''Oil on canvas.''\<rparr>]
   \<and> str_in (str ''oil'') (lower_ascii (str ''Oil on canvas.''))
   \<and> fst (identify_artwork_info lower_ascii (exemple (str ''PER''))
        (str ''Oil on canvas.'')) =
       Inr [(str ''artistes'', PySet {}),
            (str ''titres'', PySet {}),
            (str ''dates'', PySet {}),
            (str ''techniques'', PySet {}),
            (str ''dimensions'', PySet {})]"
  by (simp add: exemple_def exemple_modele_def lower_ascii_def str_def
      identify_artwork_info_def artwork_info_init_def any_mot_in_def mots_dates_def
      mots_techniques_def)

section \<open>The classifier: shape of the result\<close>

text \<open>
  Claim C2, as the code has it. With a pipeline loaded, the result is a dictionary with
  exactly the five keys \<open>artistes\<close>, \<open>titres\<close>, \<open>dates\<close>, \<open>techniques\<close>, \<open>dimensions\<close>,
  in this order, each mapped to a set of strings; a category that nothing matches is
  present with the empty set.
\<close>

theorem result_five_categories:
  assumes "nlp self = Some model"
  shows "\<exists>artistes titres dates techniques dimensions.
      fst (identify_artwork_info lower self text_in) =
        Inr [(str ''artistes'', PySet artistes),
             (str ''titres'', PySet titres),
             (str ''dates'', PySet dates),
             (str ''techniques'', PySet techniques),
             (str ''dimensions'', PySet dimensions)]
    \<and> ((\<forall>ent \<in> set (ents (model text_in)). span_label ent \<noteq> str ''PER'') \<longrightarrow> artistes = {})
    \<and> ((\<forall>ent \<in> set (ents (model text_in)). span_label ent \<noteq> str ''WORK_OF_ART'') \<longrightarrow>
          titres = {})
    \<and> ((\<forall>sent \<in> set (sents (model text_in)). \<not> any_mot_in lower mots_dates sent) \<longrightarrow>
          dates = {})
    \<and> ((\<forall>sent \<in> set (sents (model text_in)). \<not> any_mot_in lower mots_techniques sent) \<longrightarrow>
          techniques = {})
    \<and> dimensions = {}"
  unfolding identify_available [OF assms]
  by (simp add: artwork_info_of_def filter_empty_conv)

text \<open>One entity and one sentence with \<open>aquarelle\<close>: two categories filled, three present
  and empty.\<close>

theorem result_five_categories_witness:
  "nlp (exemple (str ''PER'')) = Some (exemple_modele (str ''PER''))
   \<and> fst (identify_artwork_info lower_ascii (exemple (str ''PER''))
        (str ''Jean Dupont, aquarelle.'')) =
       Inr [(str ''artistes'', PySet {str ''Jean Dupont''}),
            (str ''titres'', PySet {}),
            (str ''dates'', PySet {}),
            (str ''techniques'', PySet {str ''Jean Dupont, aquarelle.''}),
            (str ''dimensions'', PySet {})]"
proof -
  have h: "nlp (exemple (str ''PER'')) = Some (exemple_modele (str ''PER''))"
    by (simp add: exemple_def)
  show ?thesis
    using result_five_categories [OF h, of lower_ascii "str ''Jean Dupont, aquarelle.''"]
    by (simp add: ex_defs)
qed

text \<open>The key set of a result is not the set of the English names: \<open>artists\<close> is not a
  key.\<close>

theorem result_english_keys_counterexample:
  "set (map fst (projr (fst (identify_artwork_info lower_ascii (exemple (str ''PER'')) []))))
     \<noteq> {str ''artists'', str ''titles'', str ''dates'', str ''techniques'', str ''dimensions''}"
proof
  assume eq: "set (map fst (projr (fst (identify_artwork_info lower_ascii
      (exemple (str ''PER'')) [])))) =
    {str ''artists'', str ''titles'', str ''dates'', str ''techniques'', str ''dimensions''}"
  have "str ''artists'' \<in>
    {str ''artists'', str ''titles'', str ''dates'', str ''techniques'', str ''dimensions''}"
    by simp
  then have "str ''artists'' \<in> set (map fst (projr (fst (identify_artwork_info lower_ascii
      (exemple (str ''PER'')) []))))"
    unfolding eq .
  then show False
    by (simp add: ex_defs)
qed

section \<open>The classifier: entity pass\<close>

text \<open>
  Claim C3, as the code has it. With a pipeline loaded, the set under \<open>artistes\<close> is the
  set of the texts of the entity spans labelled \<open>PER\<close>, the set under \<open>titres\<close> that of
  the entity spans labelled \<open>WORK_OF_ART\<close>, and the entities with any other label
  contribute nothing: without them the result is the same.
\<close>

theorem entity_pass_labels:
  assumes "nlp self = Some model"
  shows "\<exists>info.
      fst (identify_artwork_info lower self text_in) = Inr info
    \<and> map_of info (str ''artistes'') =
        Some (PySet (set (map span_text
          (filter (\<lambda>ent. span_label ent = str ''PER'') (ents (model text_in))))))
    \<and> map_of info (str ''titres'') =
        Some (PySet (set (map span_text
          (filter (\<lambda>ent. span_label ent = str ''WORK_OF_ART'') (ents (model text_in))))))
    \<and> fst (identify_artwork_info lower
          (self\<lparr>nlp := Some (\<lambda>t. (model t)\<lparr>ents :=
             filter (\<lambda>ent. span_label ent = str ''PER'' \<or> span_label ent = str ''WORK_OF_ART'')
               (ents (model t))\<rparr>)\<rparr>) text_in) = Inr info"
proof -
  let ?keep = "\<lambda>ent. span_label ent = str ''PER'' \<or> span_label ent = str ''WORK_OF_ART''"
  let ?model' = "\<lambda>t. (model t)\<lparr>ents := filter ?keep (ents (model t))\<rparr>"
  have h': "nlp (self\<lparr>nlp := Some ?model'\<rparr>) = Some ?model'" by simp
  show ?thesis
    unfolding identify_available [OF assms] identify_available [OF h']
    by (simp add: map_of_artwork_info_of cong: rev_conj_cong)
qed

text \<open>The entity Jean Dupont labelled \<open>PER\<close> is filed under \<open>artistes\<close>.\<close>

theorem entity_pass_labels_witness:
  "nlp (exemple (str ''PER'')) = Some (exemple_modele (str ''PER''))
   \<and> fst (identify_artwork_info lower_ascii (exemple (str ''PER''))
        (str ''Jean Dupont created in 1990.'')) =
       Inr [(str ''artistes'', PySet {str ''Jean Dupont''}),
            (str ''titres'', PySet {}),
            (str ''dates'', PySet {}),
            (str ''techniques'', PySet {}),
            (str ''dimensions'', PySet {})]"
proof -
  have h: "nlp (exemple (str ''PER'')) = Some (exemple_modele (str ''PER''))"
    by (simp add: exemple_def)
  show ?thesis
    using entity_pass_labels [OF h, of lower_ascii "str ''Jean Dupont created in 1990.''"]
    by (simp add: ex_defs)
qed

text \<open>
  The same entity labelled \<open>PERSON\<close> is filed nowhere (and the sentence, which contains
  \<open>created in\<close>, is not filed under \<open>dates\<close>).
\<close>

theorem entity_pass_person_counterexample:
  "ents (exemple_modele (str ''PERSON'') (str ''Jean Dupont created in 1990.'')) =
     [\<lparr>span_label = str ''PERSON'', span_text = str ''Jean Dupont''\<rparr>]
   \<and> fst (identify_artwork_info lower_ascii (exemple (str ''PERSON''))
        (str ''Jean Dupont created in 1990.'')) =
       Inr [(str ''artistes'', PySet {}),
            (str ''titres'', PySet {}),
            (str ''dates'', PySet {}),
            (str ''techniques'', PySet {}),
            (str ''dimensions'', PySet {})]"
  by (simp add: ex_defs)

section \<open>The classifier without a pipeline\<close>

text \<open>When \<open>spacy.load\<close> raises \<open>OSError\<close>, the object is built with \<open>nlp = None\<close> and one
  warning.\<close>

lemma init_model_missing:
  assumes "fitz_open pdf_file = Inr d" and "spacy_load (str ''fr_core_news_md'') = Inl OSError"
  shows "init fitz_open spacy_load pdf_file = Inr (\<lparr>document = d, nlp = None\<rparr>, [modele_non_trouve])"
  using assms by (simp add: init_def)

text \<open>
  Claim C4. When no pipeline is loaded (\<open>nlp\<close> is \<open>None\<close>), the classifier returns, for
  every text and without raising, the dictionary with the single key \<open>erreur\<close>; text
  extraction and image extraction give the same results whether a pipeline is loaded or
  not.
\<close>

theorem model_unavailable_degraded:
  assumes "nlp self = None"
  shows "fst (identify_artwork_info lower self text_in) =
           Inr [(str ''erreur'', PyStr (str (''Mod'' @ [CHR 0xE8] @ ''le NLP non disponible'')))]
       \<and> extract_text (self\<lparr>nlp := Some model\<rparr>) = extract_text self
       \<and> extract_images image_open (self\<lparr>nlp := Some model\<rparr>) = extract_images image_open self"
  using assms
  by (simp add: identify_artwork_info_def modele_non_disponible_def extract_text_def
      extract_images_def)

text \<open>The example document without a pipeline: the degraded result, and the same text as
  with a pipeline.\<close>

theorem model_unavailable_degraded_witness:
  "nlp \<lparr>document = exemple_document False, nlp = None\<rparr> = None
   \<and> fst (identify_artwork_info lower_ascii \<lparr>document = exemple_document False, nlp = None\<rparr>
          (str ''Huile sur toile.'')) =
       Inr [(str ''erreur'', PyStr (str (''Mod'' @ [CHR 0xE8] @ ''le NLP non disponible'')))]
   \<and> extract_text \<lparr>document = exemple_document False, nlp = None\<rparr> = str ''Huile sur toile.''
   \<and> extract_text (exemple (str ''PER'')) = str ''Huile sur toile.''"
proof -
  have h: "nlp \<lparr>document = exemple_document False, nlp = None\<rparr> = None" by simp
  show ?thesis
    using model_unavailable_degraded [OF h, of lower_ascii "str ''Huile sur toile.''"
        "exemple_modele (str ''PER'')" exemple_image_open]
    by (simp add: exemple_def extract_text_def exemple_document_def str_def)
qed

section \<open>The classifier: the two keyword tests are independent\<close>

text \<open>
  Claim C5. With a pipeline loaded, a sentence that matches a keyword of the dates list
  and a keyword of the techniques list is in the set under \<open>dates\<close> and in the set under
  \<open>techniques\<close> of the same result.
\<close>

theorem both_keyword_sets_both_categories:
  assumes "nlp self = Some model"
    and "sent \<in> set (sents (model text_in))"
    and "any_mot_in lower mots_dates sent"
    and "any_mot_in lower mots_techniques sent"
  shows "\<exists>info dates techniques.
      fst (identify_artwork_info lower self text_in) = Inr info
    \<and> map_of info (str ''dates'') = Some (PySet dates)
    \<and> map_of info (str ''techniques'') = Some (PySet techniques)
    \<and> span_text sent \<in> dates \<and> span_text sent \<in> techniques"
  unfolding identify_available [OF assms(1)]
  using assms(2-4) by (simp add: map_of_artwork_info_of)

text \<open>A sentence with \<open>huile\<close> and \<open>date\<close> is filed under both.\<close>

theorem both_keyword_sets_both_categories_witness:
  "nlp (exemple (str ''PER'')) = Some (exemple_modele (str ''PER''))
   \<and> \<lparr>span_label = [], span_text = str ''Huile sur toile, date 1990.''\<rparr>
       \<in> set (sents (exemple_modele (str ''PER'') (str ''Huile sur toile, date 1990.'')))
   \<and> any_mot_in lower_ascii mots_dates
        \<lparr>span_label = [], span_text = str ''Huile sur toile, date 1990.''\<rparr>
   \<and> any_mot_in lower_ascii mots_techniques
        \<lparr>span_label = [], span_text = str ''Huile sur toile, date 1990.''\<rparr>
   \<and> fst (identify_artwork_info lower_ascii (exemple (str ''PER''))
        (str ''Huile sur toile, date 1990.'')) =
       Inr [(str ''artistes'', PySet {}),
            (str ''titres'', PySet {}),
            (str ''dates'', PySet {str ''Huile sur toile, date 1990.''}),
            (str ''techniques'', PySet {str ''Huile sur toile, date 1990.''}),
            (str ''dimensions'', PySet {})]"
proof -
  let ?t = "str ''Huile sur toile, date 1990.''"
  let ?s = "\<lparr>span_label = [], span_text = ?t\<rparr>"
  have h1: "nlp (exemple (str ''PER'')) = Some (exemple_modele (str ''PER''))"
    by (simp add: exemple_def)
  have h2: "?s \<in> set (sents (exemple_modele (str ''PER'') ?t))"
    by (simp add: exemple_modele_def str_def)
  have h3: "any_mot_in lower_ascii mots_dates ?s"
    by (simp add: any_mot_in_def mots_dates_def lower_ascii_def str_def)
  have h4: "any_mot_in lower_ascii mots_techniques ?s"
    by (simp add: any_mot_in_def mots_techniques_def lower_ascii_def str_def)
  show ?thesis
    using both_keyword_sets_both_categories [OF h1 h2 h3 h4] h2 h3 h4
    by (simp add: ex_defs)
qed

section \<open>The classifier on the empty text\<close>

text \<open>No span is a non-empty piece of the empty text.\<close>

lemma spans_of_empty_text:
  assumes "spans_of_text d []"
  shows "ents d = []" and "sents d = []"
proof -
  have "\<not> (span_text sp \<noteq> [] \<and> str_in (span_text sp) [])" for sp :: span
    by simp
  with assms have "ents d @ sents d = []"
    unfolding spans_of_text_def by (cases "ents d @ sents d") simp_all
  then show "ents d = []" and "sents d = []" by simp_all
qed

text \<open>
  Claim C8. With a pipeline loaded, whose spans are non-empty pieces of the text it is
  given, the classifier returns for the empty string the five-category dictionary with
  the five sets empty, and raises nothing.
\<close>

theorem empty_text_all_empty:
  assumes "nlp self = Some model" and "spans_of_text (model []) []"
  shows "fst (identify_artwork_info lower self []) =
       Inr [(str ''artistes'', PySet {}),
            (str ''titres'', PySet {}),
            (str ''dates'', PySet {}),
            (str ''techniques'', PySet {}),
            (str ''dimensions'', PySet {})]"
  unfolding identify_available [OF assms(1)]
  by (simp add: spans_of_empty_text [OF assms(2)] artwork_info_of_def)

text \<open>The example pipeline on the empty string.\<close>

theorem empty_text_all_empty_witness:
  "nlp (exemple (str ''PER'')) = Some (exemple_modele (str ''PER''))
   \<and> spans_of_text (exemple_modele (str ''PER'') []) []
   \<and> fst (identify_artwork_info lower_ascii (exemple (str ''PER'')) []) =
       Inr [(str ''artistes'', PySet {}),
            (str ''titres'', PySet {}),
            (str ''dates'', PySet {}),
            (str ''techniques'', PySet {}),
            (str ''dimensions'', PySet {})]"
proof -
  have h1: "nlp (exemple (str ''PER'')) = Some (exemple_modele (str ''PER''))"
    by (simp add: exemple_def)
  have h2: "spans_of_text (exemple_modele (str ''PER'') []) []"
    by (simp add: spans_of_text_def exemple_modele_def)
  show ?thesis
    using empty_text_all_empty [OF h1 h2, of lower_ascii] h1 h2 by simp
qed

section \<open>The category \<open>dimensions\<close>\<close>

text \<open>\<open>d[key].add(x)\<close> leaves the value under every other key as it is, and so do the two
  loops for the keys they never name.\<close>

lemma set_add_other:
  "set_add key x d = Inr d' \<Longrightarrow> k \<noteq> key \<Longrightarrow> map_of d' k = map_of d k"
proof (induction d arbitrary: d')
  case Nil
  then show ?case by simp
next
  case (Cons kv d)
  obtain k0 v0 where kv: "kv = (k0, v0)" by (cases kv)
  show ?case
  proof (cases "k0 = key")
    case True
    with Cons.prems kv show ?thesis
      by (auto split: pyval.splits)
  next
    case False
    with Cons.prems kv obtain d0 where d0: "set_add key x d = Inr d0" "d' = (k0, v0) # d0"
      by (auto split: sum.splits)
    from Cons.IH [OF d0(1) Cons.prems(2)] d0(2) kv show ?thesis by simp
  qed
qed

lemma ents_loop_other:
  "ents_loop es info = Inr info' \<Longrightarrow> k \<noteq> str ''artistes'' \<Longrightarrow> k \<noteq> str ''titres'' \<Longrightarrow>
     map_of info' k = map_of info k"
proof (induction es arbitrary: info)
  case Nil
  then show ?case by simp
next
  case (Cons e es)
  from Cons.prems(1) show ?case
    by (auto split: if_splits sum.splits
        simp: Cons.IH [OF _ Cons.prems(2,3)] set_add_other [OF _ Cons.prems(2)]
          set_add_other [OF _ Cons.prems(3)])
qed

lemma sents_loop_other:
  "sents_loop lower ss info = Inr info' \<Longrightarrow> k \<noteq> str ''dates'' \<Longrightarrow> k \<noteq> str ''techniques'' \<Longrightarrow>
     map_of info' k = map_of info k"
proof (induction ss arbitrary: info)
  case Nil
  then show ?case by simp
next
  case (Cons s ss)
  from Cons.prems(1) show ?case
    by (auto split: if_splits sum.splits
        simp: Cons.IH [OF _ Cons.prems(2,3)] set_add_other [OF _ Cons.prems(2)]
          set_add_other [OF _ Cons.prems(3)])
qed

text \<open>
  Claim C9. With a pipeline loaded, the set under \<open>dimensions\<close> in the result is empty,
  for every text; neither the loop over the entities nor the loop over the sentences
  changes what a dictionary holds under \<open>dimensions\<close>.
\<close>

theorem dimensions_never_populated:
  assumes "nlp self = Some model"
  shows "(\<exists>info. fst (identify_artwork_info lower self text_in) = Inr info
            \<and> map_of info (str ''dimensions'') = Some (PySet {}))
       \<and> (\<forall>info info'. ents_loop es info = Inr info' \<longrightarrow>
            map_of info' (str ''dimensions'') = map_of info (str ''dimensions''))
       \<and> (\<forall>info info'. sents_loop lower ss info = Inr info' \<longrightarrow>
            map_of info' (str ''dimensions'') = map_of info (str ''dimensions''))"
proof -
  have a: "str ''dimensions'' \<noteq> str ''artistes''" "str ''dimensions'' \<noteq> str ''titres''"
    "str ''dimensions'' \<noteq> str ''dates''" "str ''dimensions'' \<noteq> str ''techniques''"
    by (simp_all add: str_def)
  show ?thesis
    unfolding identify_available [OF assms]
    using ents_loop_other [OF _ a(1,2)] sents_loop_other [OF _ a(3,4)]
    by (simp add: map_of_artwork_info_of)
qed

text \<open>A text that states dimensions: the set under \<open>dimensions\<close> is still empty.\<close>

theorem dimensions_never_populated_witness:
  "nlp (exemple (str ''PER'')) = Some (exemple_modele (str ''PER''))
   \<and> map_of (projr (fst (identify_artwork_info lower_ascii (exemple (str ''PER''))
        (str ''Jean Dupont, huile, 60 x 80 cm.'')))) (str ''dimensions'') = Some (PySet {})"
proof -
  have h: "nlp (exemple (str ''PER'')) = Some (exemple_modele (str ''PER''))"
    by (simp add: exemple_def)
  show ?thesis
    using dimensions_never_populated [OF h, of lower_ascii "str ''Jean Dupont, huile, 60 x 80 cm.''"]
    by (simp add: ex_defs)
qed

section \<open>Classification leaves the object as it is\<close>

lemma identify_keeps_self: "snd (identify_artwork_info lower self text_in) = self"
  by (simp add: identify_artwork_info_def Let_def split: option.split)

lemma classify_all_keeps_self: "classify_all lower self texts = self"
  by (induction texts) (simp_all add: identify_keeps_self)

text \<open>
  Claim C10. A call of the classifier returns the object unchanged; after any number of
  calls, on any texts, the document and the pipeline field are the same, and text
  extraction and image extraction return what they returned before.
\<close>

theorem classification_has_no_side_effect:
  "snd (identify_artwork_info lower self text_in) = self
   \<and> document (classify_all lower self texts) = document self
   \<and> nlp (classify_all lower self texts) = nlp self
   \<and> extract_text (classify_all lower self texts) = extract_text self
   \<and> extract_images image_open (classify_all lower self texts) =
       extract_images image_open self"
  by (simp add: identify_keeps_self classify_all_keeps_self)

text \<open>After three classifications the text of the example document is as before.\<close>

theorem classification_has_no_side_effect_witness:
  "extract_text (classify_all lower_ascii (exemple (str ''PER''))
       [str ''Huile sur toile.'', [], str ''Jean Dupont'']) = str ''Huile sur toile.''"
  using classification_has_no_side_effect [of lower_ascii "exemple (str ''PER'')" "[]"
      "[str ''Huile sur toile.'', [], str ''Jean Dupont'']" exemple_image_open]
  by (simp add: exemple_def extract_text_def exemple_document_def str_def)

section \<open>Text extraction\<close>

lemma foldl_get_text:
  "foldl (\<lambda>full_text page. full_text @ get_text page) acc ps =
     acc @ concat (map get_text ps)"
  by (induction ps arbitrary: acc) simp_all

text \<open>
  Claim C6. The text extracted from a document is the concatenation, in page order, of
  the texts of its pages, with nothing put between them and nothing changed.
\<close>

theorem extract_text_concatenates_pages:
  "extract_text self = concat (map get_text (pages (document self)))"
  by (simp add: extract_text_def foldl_get_text)

text \<open>The two pages of the example document.\<close>

theorem extract_text_concatenates_pages_witness:
  "extract_text (exemple (str ''PER'')) = str ''Huile sur toile.''"
  using extract_text_concatenates_pages [of "exemple (str ''PER'')"]
  by (simp add: exemple_def exemple_document_def str_def)

section \<open>Image extraction\<close>

text \<open>
  The inner loop returns a list exactly when every image of the page gives a bitmap, and
  then it has appended these bitmaps, in order, to the list it started from.
\<close>

lemma images_of_page_iff:
  "images_of_page image_open d imgs acc = Inr out \<longleftrightarrow>
     (\<exists>new. out = acc @ new \<and> map (bitmap_of image_open d) imgs = map Inr new)"
proof (induction imgs arbitrary: acc)
  case Nil
  show ?case by auto
next
  case (Cons img imgs)
  show ?case
  proof (cases "bitmap_of image_open d img")
    case (Inl e)
    then have "images_of_page image_open d (img # imgs) acc = Inl e"
      by (auto simp: bitmap_of_def split: sum.splits option.splits)
    with Inl show ?thesis by (auto simp: Cons_eq_map_conv)
  next
    case (Inr pil)
    then have "images_of_page image_open d (img # imgs) acc =
        images_of_page image_open d imgs (acc @ [pil])"
      by (auto simp: bitmap_of_def split: sum.splits option.splits)
    with Inr show ?thesis
      by (auto simp: Cons.IH Cons_eq_map_conv)
  qed
qed

text \<open>The same for the outer loop, over page numbers that are all in range.\<close>

lemma images_of_pages_iff:
  assumes "\<forall>n \<in> set ns. n < length (pages d)"
  shows "images_of_pages image_open d ns acc = Inr out \<longleftrightarrow>
     (\<exists>new. out = acc @ new \<and>
        map (bitmap_of image_open d) (concat (map (\<lambda>n. get_images (pages d ! n)) ns)) =
          map Inr new)"
  using assms
proof (induction ns arbitrary: acc)
  case Nil
  show ?case by auto
next
  case (Cons n ns)
  let ?here = "get_images (pages d ! n)"
  let ?rest = "concat (map (\<lambda>n. get_images (pages d ! n)) ns)"
  from Cons.prems have n: "n < length (pages d)" and ns: "\<forall>n \<in> set ns. n < length (pages d)"
    by simp_all
  show ?case
  proof
    assume run: "images_of_pages image_open d (n # ns) acc = Inr out"
    with n obtain mid where mid: "images_of_page image_open d ?here acc = Inr mid"
      and rest: "images_of_pages image_open d ns mid = Inr out"
      by (auto split: sum.splits)
    from mid obtain new1 where new1: "mid = acc @ new1"
      "map (bitmap_of image_open d) ?here = map Inr new1"
      by (auto simp: images_of_page_iff)
    from rest Cons.IH [OF ns] obtain new2 where new2: "out = mid @ new2"
      "map (bitmap_of image_open d) ?rest = map Inr new2"
      by blast
    from new1 new2 have "out = acc @ (new1 @ new2)"
      and "map (bitmap_of image_open d) (concat (map (\<lambda>n. get_images (pages d ! n)) (n # ns)))
         = map Inr (new1 @ new2)"
      by simp_all
    then show "\<exists>new. out = acc @ new \<and>
        map (bitmap_of image_open d) (concat (map (\<lambda>n. get_images (pages d ! n)) (n # ns))) =
          map Inr new"
      by blast
  next
    assume "\<exists>new. out = acc @ new \<and>
        map (bitmap_of image_open d) (concat (map (\<lambda>n. get_images (pages d ! n)) (n # ns))) =
          map Inr new"
    then obtain new where out: "out = acc @ new"
      and all: "map (bitmap_of image_open d) ?here @ map (bitmap_of image_open d) ?rest =
          map Inr new"
      by auto
    from all obtain new1 new2 where split: "new = new1 @ new2"
      "map (bitmap_of image_open d) ?here = map Inr new1"
      "map (bitmap_of image_open d) ?rest = map Inr new2"
      by (auto simp: append_eq_map_conv)
    from split(2) have "images_of_page image_open d ?here acc = Inr (acc @ new1)"
      by (simp add: images_of_page_iff)
    moreover have "images_of_pages image_open d ns (acc @ new1) = Inr out \<longleftrightarrow>
        (\<exists>new. out = (acc @ new1) @ new \<and> map (bitmap_of image_open d) ?rest = map Inr new)"
      by (rule Cons.IH [OF ns])
    with split(3) out split(1)
    have "images_of_pages image_open d ns (acc @ new1) = Inr out"
      by auto
    ultimately show "images_of_pages image_open d (n # ns) acc = Inr out"
      using n by simp
  qed
qed

lemma listed_images_by_index:
  "concat (map (\<lambda>n. get_images (pages d ! n)) [0 ..< length (pages d)]) = listed_images d"
proof -
  have "map (\<lambda>n. get_images (pages d ! n)) [0 ..< length (pages d)] =
      map get_images (map (nth (pages d)) [0 ..< length (pages d)])"
    by simp
  also have "\<dots> = map get_images (pages d)"
    by (simp only: map_nth)
  finally show ?thesis by (simp add: listed_images_def)
qed

lemma extract_images_iff:
  "extract_images image_open self = Inr images \<longleftrightarrow>
     map (bitmap_of image_open (document self)) (listed_images (document self)) = map Inr images"
proof -
  have "\<forall>n \<in> set [0 ..< length (pages (document self))]. n < length (pages (document self))"
    by simp
  from images_of_pages_iff [OF this, of image_open "[]" images] show ?thesis
    by (simp add: extract_images_def listed_images_by_index)
qed

text \<open>
  Claim C7, as the code has it. \<open>extract_images\<close> returns a list exactly when every image
  listed by the document, page by page and within a page in listing order, can be
  extracted and opened; the list then holds, in that order, the bitmap opened from the
  bytes of each listed image, so it has as many bitmaps as the pages list images in
  total. When one listed image cannot be extracted or opened, the call raises and no list
  is returned.
\<close>

theorem extract_images_bitmaps_in_order:
  "(extract_images image_open self = Inr images \<longleftrightarrow>
      map (bitmap_of image_open (document self)) (listed_images (document self)) =
        map Inr images)
   \<and> (extract_images image_open self = Inr images \<longrightarrow>
        length images = sum_list (map (\<lambda>page. length (get_images page)) (pages (document self))))
   \<and> ((\<forall>img \<in> set (listed_images (document self)).
          \<exists>pil. bitmap_of image_open (document self) img = Inr pil) \<longrightarrow>
        (\<exists>images. extract_images image_open self = Inr images))
   \<and> ((\<exists>img \<in> set (listed_images (document self)).
          \<exists>e. bitmap_of image_open (document self) img = Inl e) \<longrightarrow>
        (\<exists>e. extract_images image_open self = Inl e))"
proof (intro conjI impI)
  let ?f = "bitmap_of image_open (document self)"
  let ?l = "listed_images (document self)"
  show iff: "extract_images image_open self = Inr images \<longleftrightarrow> map ?f ?l = map Inr images"
    by (rule extract_images_iff)
  show "length images = sum_list (map (\<lambda>page. length (get_images page)) (pages (document self)))"
    if "extract_images image_open self = Inr images"
  proof -
    from that iff have "map ?f ?l = map Inr images" by simp
    then have "length images = length ?l" by (metis length_map)
    then show ?thesis by (simp add: listed_images_def length_concat comp_def)
  qed
  show "\<exists>images. extract_images image_open self = Inr images"
    if "\<forall>img \<in> set ?l. \<exists>pil. ?f img = Inr pil"
  proof -
    from that have "map ?f ?l = map Inr (map (\<lambda>img. projr (?f img)) ?l)"
      by auto
    then have "extract_images image_open self = Inr (map (\<lambda>img. projr (?f img)) ?l)"
      by (simp only: extract_images_iff)
    then show ?thesis by blast
  qed
  show "\<exists>e. extract_images image_open self = Inl e"
    if "\<exists>img \<in> set ?l. \<exists>e. ?f img = Inl e"
  proof (cases "extract_images image_open self")
    case (Inl e)
    then show ?thesis by blast
  next
    case (Inr out)
    then have "map ?f ?l = map Inr out" by (simp add: extract_images_iff)
    then have "\<forall>img \<in> set ?l. \<exists>pil. ?f img = Inr pil"
      by (metis (no_types, lifting) imageE image_eqI list.set_map)
    with that show ?thesis by auto
  qed
qed

text \<open>The example document: three listed images, three bitmaps, object 7 twice.\<close>

theorem extract_images_bitmaps_in_order_witness:
  "extract_images exemple_image_open (exemple (str ''PER'')) =
     Inr [[255, 216, 1], [255, 216, 2], [255, 216, 1]]
   \<and> length [[255, 216, 1], [255, 216, 2], [255, 216, 1 :: 8 word]] =
       sum_list (map (\<lambda>page. length (get_images page))
         (pages (document (exemple (str ''PER'')))))"
  using extract_images_bitmaps_in_order [of exemple_image_open "exemple (str ''PER'')"
      "[[255, 216, 1], [255, 216, 2], [255, 216, 1]]"]
  by (simp add: exemple_def exemple_document_def exemple_image_open_def bitmap_of_def
      listed_images_def)

text \<open>
  The same document with the stream of object 9 not an image: three images are listed
  and the call raises, so no bitmap is returned.
\<close>

theorem extract_images_corrupt_counterexample:
  "length (listed_images (exemple_document True)) = 3
   \<and> extract_images exemple_image_open \<lparr>document = exemple_document True, nlp = None\<rparr> =
     Inl UnidentifiedImageError"
  by (simp add: extract_images_def exemple_document_def exemple_image_open_def upt_rec
      listed_images_def)

end
